theory Spec2Isabelle
  imports Main "HOL-Library.Word"
begin

section \<open>Shallow embedding of the engenca core (genome.py, gene_decoder.py, organism.py)\<close>

text \<open>
  Python integers are unbounded and are modelled as \<open>int\<close>. A Python \<open>bytes\<close> object is a
  sequence of integers in \<open>[0, 255]\<close> and is modelled as a list of 8-bit words, read back
  as integers with \<open>uint\<close>. The exception classes the code raises (\<open>IndexError\<close>,
  \<open>ValueError\<close>) and those \<open>os.urandom\<close> raises on a size it cannot serve
  (\<open>OverflowError\<close>, \<open>MemoryError\<close>) are values of \<open>py_error\<close>; a function that may
  raise returns \<open>py_error + 'a\<close> with \<open>Inl\<close> the exception. The spec's \<open>OutOfRange\<close> is Python's \<open>IndexError\<close>, its \<open>InvalidArgument\<close> is
  \<open>ValueError\<close>, and its \<open>UNDECODED\<close> marker is Python's \<open>None\<close>.
\<close>

type_synonym byte = "8 word"

datatype py_error = IndexError | ValueError | OverflowError | MemoryError

subsection \<open>genome.py\<close>

record Genome =
  data :: "byte list"

text \<open>
  The environment of a call of \<open>os.urandom\<close>: the entropy source, whose \<open>i\<close>-th byte is
  \<open>rand_byte i\<close>, and the size of the largest byte string the machine can allocate at
  that moment.
\<close>

record os_env =
  rand_byte :: "nat \<Rightarrow> byte"
  alloc_limit :: int

text \<open>An entropy source that delivers zero bytes only, for the concrete examples.\<close>

definition zero_bytes :: "nat \<Rightarrow> byte" where
  "zero_bytes i = 0"

text \<open>
  The limits of 64-bit CPython: the largest \<open>Py_ssize_t\<close> and the size of the header of
  a \<open>bytes\<close> object.
\<close>

definition PY_SSIZE_T_MAX :: int where
  "PY_SSIZE_T_MAX = 2 ^ 63 - 1"

definition PyBytesObject_SIZE :: int where
  "PyBytesObject_SIZE = 33"

text \<open>
  \<open>os.urandom(size)\<close>: \<open>size\<close> bytes read from the entropy source. CPython raises
  \<open>ValueError\<close> on a negative size, \<open>OverflowError\<close> on a size that does not fit a
  \<open>Py_ssize_t\<close> or, with the header, a \<open>bytes\<close> object, and \<open>MemoryError\<close> on a size
  the machine cannot allocate.
\<close>

definition urandom :: "os_env \<Rightarrow> int \<Rightarrow> py_error + byte list" where
  "urandom env n =
     (if n < 0 then Inl ValueError
      else if PY_SSIZE_T_MAX < n then Inl OverflowError
      else if PY_SSIZE_T_MAX - PyBytesObject_SIZE < n then Inl OverflowError
      else if alloc_limit env < n then Inl MemoryError
      else Inr (map (rand_byte env) [0 ..< nat n]))"

text \<open>\<open>Genome.__init__(size, data)\<close>, with \<open>sz\<close> for \<open>size\<close> and \<open>data_arg\<close> for \<open>data\<close>.\<close>

definition Genome_init :: "os_env \<Rightarrow> int \<Rightarrow> byte list option \<Rightarrow> py_error + Genome" where
  "Genome_init env sz data_arg =
     (case data_arg of
        Some d \<Rightarrow> Inr \<lparr>data = d\<rparr>
      | None \<Rightarrow>
          if sz < 0 then Inl ValueError
          else (case urandom env sz of
                  Inl e \<Rightarrow> Inl e
                | Inr d \<Rightarrow> Inr \<lparr>data = d\<rparr>))"

text \<open>\<open>Genome.__len__\<close>.\<close>

definition Genome_len :: "Genome \<Rightarrow> int" where
  "Genome_len g = int (length (data g))"

text \<open>
  The slice \<open>xs[i : j]\<close> for \<open>0 \<le> i\<close> and \<open>0 \<le> j\<close>, the only case the guarded
  call sites below reach; Python clips the slice at the end of the sequence.
\<close>

definition py_slice :: "'a list \<Rightarrow> int \<Rightarrow> int \<Rightarrow> 'a list" where
  "py_slice xs i j = take (nat j - nat i) (drop (nat i) xs)"

text \<open>\<open>Genome.get_gene(start_index, length)\<close>.\<close>

definition get_gene :: "Genome \<Rightarrow> int \<Rightarrow> int \<Rightarrow> py_error + byte list" where
  "get_gene g start_index len =
     (if \<not> (0 \<le> start_index \<and> start_index < int (length (data g)))
         \<or> \<not> (0 < len)
         \<or> \<not> (start_index + len \<le> int (length (data g)))
      then Inl IndexError
      else Inr (py_slice (data g) start_index (start_index + len)))"

text \<open>
  \<open>Genome.mutate_byte(index, new_byte_value)\<close>. The method mutates \<open>self.data\<close>, so the
  model returns the outcome of the call together with the genome as it is afterwards,
  also when the call raises. \<open>new_byte_value = None\<close> is \<open>None\<close>; \<open>rnd\<close> is the value
  \<open>random.randint(0, 255)\<close> draws, used in that case only.
\<close>

definition mutate_byte :: "byte \<Rightarrow> Genome \<Rightarrow> int \<Rightarrow> int option \<Rightarrow> (py_error + unit) \<times> Genome" where
  "mutate_byte rnd g index new_byte_value =
     (if \<not> (0 \<le> index \<and> index < int (length (data g))) then (Inl IndexError, g)
      else
        let temp_data = data g in
        (case new_byte_value of
           Some v \<Rightarrow>
             if \<not> (0 \<le> v \<and> v \<le> 255) then (Inl ValueError, g)
             else (Inr (), g\<lparr>data := temp_data[nat index := word_of_int v]\<rparr>)
         | None \<Rightarrow> (Inr (), g\<lparr>data := temp_data[nat index := rnd]\<rparr>)))"

subsection \<open>gene_decoder.py\<close>

text \<open>The built-in \<open>sum\<close> on a \<open>bytes\<close> object: the exact integer sum of its bytes.\<close>

definition py_sum :: "byte list \<Rightarrow> int" where
  "py_sum bs = sum_list (map uint bs)"

text \<open>
  Indexing \<open>xs[i]\<close> of a list: a negative index counts from the end, an index out of
  range raises \<open>IndexError\<close>.
\<close>

definition py_getitem :: "'a list \<Rightarrow> int \<Rightarrow> py_error + 'a" where
  "py_getitem xs i =
     (if 0 \<le> i \<and> i < int (length xs) then Inr (xs ! nat i)
      else if i < 0 \<and> - int (length xs) \<le> i then Inr (xs ! nat (int (length xs) + i))
      else Inl IndexError)"

text \<open>
  \<open>decode_simple_attribute\<close>. The result \<open>Inr None\<close> is the return value \<open>None\<close>;
  \<open>Inl e\<close> is an exception that leaves the function. The \<open>try\<close> block catches
  \<open>IndexError\<close> only; the final indexing is outside it.
\<close>

definition decode_simple_attribute ::
  "Genome \<Rightarrow> int \<Rightarrow> int \<Rightarrow> string list \<Rightarrow> py_error + string option" where
  "decode_simple_attribute genome gene_start gene_length attribute_options =
     (if attribute_options = [] then Inr None
      else
        (case get_gene genome gene_start gene_length of
           Inl e \<Rightarrow> (case e of IndexError \<Rightarrow> Inr None | _ \<Rightarrow> Inl e)
         | Inr gene_bytes \<Rightarrow>
             if gene_bytes = [] then Inr None
             else
               let sum_of_bytes = py_sum gene_bytes;
                   selected_index = sum_of_bytes mod int (length attribute_options)
               in (case py_getitem attribute_options selected_index of
                     Inl e \<Rightarrow> Inl e
                   | Inr label \<Rightarrow> Inr (Some label))))"

text \<open>
  \<open>decode_interacting_genes\<close>. Both reads are inside one \<open>try\<close> block, so the second
  segment is read only when the first read succeeded.
\<close>

definition decode_interacting_genes ::
  "Genome \<Rightarrow> int \<Rightarrow> int \<Rightarrow> int \<Rightarrow> int \<Rightarrow> int \<Rightarrow> py_error + int option" where
  "decode_interacting_genes genome gene1_start gene1_length gene2_start gene2_length max_value =
     (if max_value \<le> 0 then Inr None
      else
        (case get_gene genome gene1_start gene1_length of
           Inl e \<Rightarrow> (case e of IndexError \<Rightarrow> Inr None | _ \<Rightarrow> Inl e)
         | Inr gene1_bytes \<Rightarrow>
             (case get_gene genome gene2_start gene2_length of
                Inl e \<Rightarrow> (case e of IndexError \<Rightarrow> Inr None | _ \<Rightarrow> Inl e)
              | Inr gene2_bytes \<Rightarrow>
                  if gene1_bytes = [] \<or> gene2_bytes = [] then Inr None
                  else
                    let sum_gene1 = py_sum gene1_bytes;
                        sum_gene2 = py_sum gene2_bytes;
                        combined_value = sum_gene1 * sum_gene2;
                        final_value = combined_value mod max_value
                    in Inr (Some final_value))))"

subsection \<open>organism.py\<close>

text \<open>A value stored in the attribute dictionary: a label, an integer or \<open>None\<close>.\<close>

datatype py_value = PyStr string | PyInt int | PyNone

definition COLOR_GENE_START :: int where
  "COLOR_GENE_START = 0"

definition COLOR_GENE_LENGTH :: int where
  "COLOR_GENE_LENGTH = 4"

definition COLOR_OPTIONS :: "string list" where
  "COLOR_OPTIONS = [''red'', ''green'', ''blue'', ''yellow'', ''purple'', ''orange'',
                    ''pink'', ''brown'', ''black'', ''white'']"

definition SIZE_GENE1_START :: int where
  "SIZE_GENE1_START = COLOR_GENE_START + COLOR_GENE_LENGTH"

definition SIZE_GENE1_LENGTH :: int where
  "SIZE_GENE1_LENGTH = 2"

definition SIZE_GENE2_START :: int where
  "SIZE_GENE2_START = SIZE_GENE1_START + SIZE_GENE1_LENGTH"

definition SIZE_GENE2_LENGTH :: int where
  "SIZE_GENE2_LENGTH = 2"

definition SIZE_MAX_VALUE :: int where
  "SIZE_MAX_VALUE = 100"

definition MIN_GENOME_SIZE :: int where
  "MIN_GENOME_SIZE = SIZE_GENE2_START + SIZE_GENE2_LENGTH"

record Organism =
  genome :: Genome
  attributes :: "string \<rightharpoonup> py_value"

text \<open>
  \<open>Organism.decode_attributes\<close>: stores both decoded values in the dictionary, the color
  first. An exception of a decoder would leave the method before the store.
\<close>

definition decode_attributes :: "Organism \<Rightarrow> py_error + Organism" where
  "decode_attributes self =
     (case decode_simple_attribute (genome self) COLOR_GENE_START COLOR_GENE_LENGTH
             COLOR_OPTIONS of
        Inl e \<Rightarrow> Inl e
      | Inr color \<Rightarrow>
          let self1 = self\<lparr>attributes := (attributes self)(''color'' \<mapsto>
                        (case color of None \<Rightarrow> PyNone | Some c \<Rightarrow> PyStr c))\<rparr>
          in (case decode_interacting_genes (genome self1) SIZE_GENE1_START SIZE_GENE1_LENGTH
                     SIZE_GENE2_START SIZE_GENE2_LENGTH SIZE_MAX_VALUE of
                Inl e \<Rightarrow> Inl e
              | Inr sz \<Rightarrow>
                  Inr (self1\<lparr>attributes := (attributes self1)(''size'' \<mapsto>
                         (case sz of None \<Rightarrow> PyNone | Some n \<Rightarrow> PyInt n))\<rparr>)))"

text \<open>
  \<open>Organism.__init__(genome_size, genome_instance)\<close>; \<open>genome_instance = None\<close> is
  \<open>None\<close>, and \<open>env\<close> is the environment of the fresh genome's \<open>os.urandom\<close>. The warning the
  constructor prints when it raises \<open>genome_size\<close> is output only and is left out.
\<close>

definition Organism_init :: "os_env \<Rightarrow> int \<Rightarrow> Genome option \<Rightarrow> py_error + Organism" where
  "Organism_init env genome_size genome_instance =
     (case genome_instance of
        Some gi \<Rightarrow>
          if Genome_len gi < MIN_GENOME_SIZE then Inl ValueError
          else decode_attributes \<lparr>genome = gi, attributes = Map.empty\<rparr>
      | None \<Rightarrow>
          let genome_size' = (if genome_size < MIN_GENOME_SIZE then MIN_GENOME_SIZE
                              else genome_size)
          in (case Genome_init env genome_size' None of
                Inl e \<Rightarrow> Inl e
              | Inr g \<Rightarrow> decode_attributes \<lparr>genome = g, attributes = Map.empty\<rparr>))"

section \<open>Genome: segment reads\<close>

lemma py_slice_length:
  assumes "0 \<le> i" and "i \<le> j" and "j \<le> int (length xs)"
  shows "length (py_slice xs i j) = nat (j - i)"
  using assms by (simp add: py_slice_def nat_diff_distrib)

lemma py_slice_nth:
  assumes "0 \<le> i" and "j \<le> int (length xs)" and "k < nat (j - i)"
  shows "py_slice xs i j ! k = xs ! (nat i + k)"
  using assms by (simp add: py_slice_def nat_diff_distrib)

text \<open>
  Claim C1. For every genome and all integers \<open>start\<close>, \<open>len\<close>: when
  \<open>0 \<le> start < |data|\<close>, \<open>len > 0\<close> and \<open>start + len \<le> |data|\<close>, \<open>get_gene\<close> returns a
  sequence of exactly \<open>len\<close> bytes whose \<open>k\<close>-th byte is \<open>data[start + k]\<close>; in every other
  case (\<open>start < 0\<close>, \<open>start \<ge> |data|\<close>, \<open>len \<le> 0\<close> or \<open>start + len > |data|\<close>) it raises
  \<open>IndexError\<close>. In particular a request of length zero always fails.
\<close>

theorem get_gene_slice_or_IndexError:
  "(0 \<le> start \<and> start < int (length (data g)) \<and> 0 < len
      \<and> start + len \<le> int (length (data g))
    \<longrightarrow> (\<exists>seg. get_gene g start len = Inr seg
              \<and> int (length seg) = len
              \<and> (\<forall>k < nat len. seg ! k = data g ! (nat start + k))))
   \<and> (start < 0 \<or> int (length (data g)) \<le> start \<or> len \<le> 0
        \<or> int (length (data g)) < start + len
    \<longrightarrow> get_gene g start len = Inl IndexError)
   \<and> get_gene g start 0 = Inl IndexError"
proof (intro conjI impI)
  assume ok: "0 \<le> start \<and> start < int (length (data g)) \<and> 0 < len
      \<and> start + len \<le> int (length (data g))"
  let ?seg = "py_slice (data g) start (start + len)"
  from ok have "get_gene g start len = Inr ?seg"
    by (simp add: get_gene_def)
  moreover from ok have "int (length ?seg) = len"
    by (simp add: py_slice_length)
  moreover from ok have "\<forall>k < nat len. ?seg ! k = data g ! (nat start + k)"
    by (simp add: py_slice_nth)
  ultimately show "\<exists>seg. get_gene g start len = Inr seg
              \<and> int (length seg) = len
              \<and> (\<forall>k < nat len. seg ! k = data g ! (nat start + k))"
    by blast
next
  assume "start < 0 \<or> int (length (data g)) \<le> start \<or> len \<le> 0
        \<or> int (length (data g)) < start + len"
  then show "get_gene g start len = Inl IndexError"
    by (auto simp: get_gene_def)
next
  show "get_gene g start 0 = Inl IndexError"
    by (simp add: get_gene_def)
qed

theorem get_gene_slice_or_IndexError_witness:
  "get_gene \<lparr>data = [0, 1, 2, 3, 4, 5, 6, 7, 8, 9]\<rparr> 2 4 = Inr [2, 3, 4, 5]
   \<and> get_gene \<lparr>data = [0, 1, 2, 3, 4, 5, 6, 7, 8, 9]\<rparr> 5 6 = Inl IndexError
   \<and> get_gene \<lparr>data = [0, 1, 2, 3, 4, 5, 6, 7, 8, 9]\<rparr> 5 0 = Inl IndexError"
proof -
  let ?g = "\<lparr>data = [0, 1, 2, 3, 4, 5, 6, 7, 8, 9 :: byte]\<rparr>"
  note c1 = get_gene_slice_or_IndexError [of 2 ?g 4]
  note c2 = get_gene_slice_or_IndexError [of 5 ?g 6]
  from c1 obtain seg where seg: "get_gene ?g 2 4 = Inr seg"
    and len: "int (length seg) = 4"
    and nth: "\<forall>k < nat 4. seg ! k = data ?g ! (nat 2 + k)"
    by auto
  from len have l4: "length seg = 4" by simp
  from nth have "seg ! 0 = 2" "seg ! 1 = 3" "seg ! 2 = 4" "seg ! 3 = 5"
    by simp_all
  with l4 have "seg = [2, 3, 4, 5]"
    by (simp add: list_eq_iff_nth_eq less_Suc_eq numeral_nat)
  with seg have "get_gene ?g 2 4 = Inr [2, 3, 4, 5]" by simp
  moreover from c2 have "get_gene ?g 5 6 = Inl IndexError" by simp
  moreover from c2 have "get_gene ?g 5 0 = Inl IndexError" by simp
  ultimately show ?thesis by simp
qed

section \<open>Decoders\<close>

lemma sum_list_take_drop:
  assumes "m + n \<le> length xs"
  shows "sum_list (map f (take n (drop m xs))) = (\<Sum>k = m ..< m + n. f (xs ! k))"
proof -
  have "sum_list (map f (take n (drop m xs))) = (\<Sum>k = 0 ..< n. f (xs ! (m + k)))"
  proof -
    from assms have len: "length (take n (drop m xs)) = n" by simp
    have "sum_list (map f (take n (drop m xs)))
            = (\<Sum>k = 0 ..< n. map f (take n (drop m xs)) ! k)"
      using len by (simp add: sum_list_sum_nth)
    also have "\<dots> = (\<Sum>k = 0 ..< n. f (xs ! (m + k)))"
      using assms by (intro sum.cong) simp_all
    finally show ?thesis .
  qed
  also have "\<dots> = (\<Sum>k = m ..< m + n. f (xs ! k))"
    using sum.shift_bounds_nat_ivl [of "\<lambda>k. f (xs ! k)" 0 m n]
    by (simp add: add.commute)
  finally show ?thesis .
qed

lemma py_sum_py_slice:
  assumes "0 \<le> i" and "i \<le> j" and "j \<le> int (length xs)"
  shows "py_sum (py_slice xs i j) = (\<Sum>k = nat i ..< nat j. uint (xs ! k))"
proof -
  from assms have le: "nat i + (nat j - nat i) \<le> length xs" by linarith
  from assms have eq: "nat i + (nat j - nat i) = nat j" by linarith
  show ?thesis
    unfolding py_sum_def py_slice_def
    using sum_list_take_drop [OF le, of uint] by (simp only: eq)
qed

lemma py_slice_nonempty:
  assumes "0 \<le> i" and "i < j" and "j \<le> int (length xs)"
  shows "py_slice xs i j \<noteq> []"
  using py_slice_length [of i j xs] assms by fastforce

lemma py_sum_nonneg: "0 \<le> py_sum bs"
  by (auto simp: py_sum_def intro!: sum_list_nonneg)

lemma py_getitem_in_range:
  assumes "0 \<le> i" and "i < int (length xs)"
  shows "py_getitem xs i = Inr (xs ! nat i)"
  using assms by (simp add: py_getitem_def)

lemma get_gene_in_bounds:
  assumes "0 \<le> start" and "start < int (length (data g))" and "0 < len"
    and "start + len \<le> int (length (data g))"
  shows "get_gene g start len = Inr (py_slice (data g) start (start + len))"
  using assms by (simp add: get_gene_def)

lemma get_gene_error: "get_gene g start len = Inl e \<Longrightarrow> e = IndexError"
  by (auto simp: get_gene_def split: if_splits)

lemma get_gene_nonempty: "get_gene g start len = Inr seg \<Longrightarrow> seg \<noteq> []"
  by (auto simp: get_gene_def py_slice_nonempty split: if_splits)

text \<open>
  Claim C2. For every genome, every in-bounds segment \<open>(start, len)\<close> and every
  non-empty list of options, \<open>decode_simple_attribute\<close> returns the option at index
  (sum of the bytes \<open>data[start] .. data[start + len - 1]\<close>) mod (number of options).
  The witness is the spec's scenario: the segment \<open>[0, 1, 2, 3]\<close> with five labels sums
  to 6, and \<open>6 mod 5 = 1\<close> selects the second label.
\<close>

theorem decode_simple_attribute_selects:
  assumes "0 \<le> start" and "start < int (length (data g))" and "0 < len"
    and "start + len \<le> int (length (data g))" and "options \<noteq> []"
  shows "decode_simple_attribute g start len options =
           Inr (Some (options ! nat ((\<Sum>k = nat start ..< nat (start + len). uint (data g ! k))
                                       mod int (length options))))"
proof -
  let ?seg = "py_slice (data g) start (start + len)"
  let ?idx = "py_sum ?seg mod int (length options)"
  from assms have seg: "get_gene g start len = Inr ?seg"
    by (simp add: get_gene_in_bounds)
  from assms have ne: "?seg \<noteq> []"
    by (simp add: py_slice_nonempty)
  from assms(5) have pos: "0 < int (length options)" by simp
  then have "0 \<le> ?idx" and "?idx < int (length options)"
    by simp_all
  then have item: "py_getitem options ?idx = Inr (options ! nat ?idx)"
    by (rule py_getitem_in_range)
  from assms have sum: "py_sum ?seg = (\<Sum>k = nat start ..< nat (start + len). uint (data g ! k))"
    by (simp add: py_sum_py_slice)
  from assms(5) seg ne item have
    "decode_simple_attribute g start len options = Inr (Some (options ! nat ?idx))"
    by (simp add: decode_simple_attribute_def Let_def)
  with sum show ?thesis by simp
qed

theorem decode_simple_attribute_selects_witness:
  "decode_simple_attribute \<lparr>data = [0, 1, 2, 3, 0, 0, 0, 0]\<rparr> 0 4
      [''red'', ''green'', ''blue'', ''yellow'', ''purple''] = Inr (Some ''green'')"
proof -
  let ?g = "\<lparr>data = [0, 1, 2, 3, 0, 0, 0, 0 :: byte]\<rparr>"
  let ?colors = "[''red'', ''green'', ''blue'', ''yellow'', ''purple'']"
  have six: "(\<Sum>k = nat 0 ..< nat (0 + 4). uint (data ?g ! k)) = 6"
    by code_simp
  have "decode_simple_attribute ?g 0 4 ?colors =
          Inr (Some (?colors ! nat ((\<Sum>k = nat 0 ..< nat (0 + 4). uint (data ?g ! k))
                                      mod int (length ?colors))))"
    by (rule decode_simple_attribute_selects) simp_all
  then show ?thesis
    by (simp only: six) simp
qed

lemma decode_simple_attribute_cases:
  "decode_simple_attribute g s l opts = Inr None
   \<or> (\<exists>seg. get_gene g s l = Inr seg \<and> opts \<noteq> []
        \<and> decode_simple_attribute g s l opts =
            Inr (Some (opts ! nat (py_sum seg mod int (length opts)))))"
proof (cases "opts = []")
  case True
  then show ?thesis by (simp add: decode_simple_attribute_def)
next
  case ne: False
  show ?thesis
  proof (cases "get_gene g s l")
    case (Inl e)
    then have "e = IndexError" by (rule get_gene_error)
    with Inl ne show ?thesis by (simp add: decode_simple_attribute_def)
  next
    case (Inr seg)
    then have seg_ne: "seg \<noteq> []" by (rule get_gene_nonempty)
    let ?idx = "py_sum seg mod int (length opts)"
    from ne have "0 < int (length opts)" by simp
    then have "0 \<le> ?idx" and "?idx < int (length opts)" by simp_all
    then have "py_getitem opts ?idx = Inr (opts ! nat ?idx)"
      by (rule py_getitem_in_range)
    with Inr ne seg_ne show ?thesis
      by (simp add: decode_simple_attribute_def Let_def)
  qed
qed

lemma decode_interacting_genes_cases:
  "decode_interacting_genes g s1 l1 s2 l2 mv = Inr None
   \<or> (\<exists>seg1 seg2. get_gene g s1 l1 = Inr seg1 \<and> get_gene g s2 l2 = Inr seg2 \<and> 0 < mv
        \<and> decode_interacting_genes g s1 l1 s2 l2 mv =
            Inr (Some ((py_sum seg1 * py_sum seg2) mod mv)))"
proof (cases "mv \<le> 0")
  case True
  then show ?thesis by (simp add: decode_interacting_genes_def)
next
  case pos: False
  show ?thesis
  proof (cases "get_gene g s1 l1")
    case (Inl e)
    then have "e = IndexError" by (rule get_gene_error)
    with Inl pos show ?thesis by (simp add: decode_interacting_genes_def)
  next
    case seg1: (Inr seg1)
    then have ne1: "seg1 \<noteq> []" by (rule get_gene_nonempty)
    show ?thesis
    proof (cases "get_gene g s2 l2")
      case (Inl e)
      then have "e = IndexError" by (rule get_gene_error)
      with Inl seg1 pos show ?thesis by (simp add: decode_interacting_genes_def)
    next
      case seg2: (Inr seg2)
      then have ne2: "seg2 \<noteq> []" by (rule get_gene_nonempty)
      from pos seg1 seg2 ne1 ne2 show ?thesis
        by (simp add: decode_interacting_genes_def Let_def)
    qed
  qed
qed

text \<open>
  Claim C3. For every genome, all integer coordinates, every list of options and every
  \<open>max_value\<close>, neither decoder raises: each returns a value (\<open>Inr\<close>). The return value
  is \<open>None\<close> when the options are empty, when \<open>max_value \<le> 0\<close>, and whenever
  \<open>get_gene\<close> raises for the segment (for either segment, in the interacting decoder),
  so the \<open>IndexError\<close> of the genome never leaves a decoder.
\<close>

theorem decoders_never_raise:
  "(\<exists>r. decode_simple_attribute g s l opts = Inr r)
   \<and> (\<exists>r. decode_interacting_genes g s1 l1 s2 l2 mv = Inr r)
   \<and> (opts = [] \<longrightarrow> decode_simple_attribute g s l opts = Inr None)
   \<and> (mv \<le> 0 \<longrightarrow> decode_interacting_genes g s1 l1 s2 l2 mv = Inr None)
   \<and> (get_gene g s l = Inl e \<longrightarrow> decode_simple_attribute g s l opts = Inr None)
   \<and> (get_gene g s1 l1 = Inl e \<or> get_gene g s2 l2 = Inl e
        \<longrightarrow> decode_interacting_genes g s1 l1 s2 l2 mv = Inr None)"
proof (intro conjI impI)
  show "\<exists>r. decode_simple_attribute g s l opts = Inr r"
    using decode_simple_attribute_cases [of g s l opts] by blast
  show "\<exists>r. decode_interacting_genes g s1 l1 s2 l2 mv = Inr r"
    using decode_interacting_genes_cases [of g s1 l1 s2 l2 mv] by blast
  show "decode_simple_attribute g s l opts = Inr None" if "opts = []"
    using that by (simp add: decode_simple_attribute_def)
  show "decode_interacting_genes g s1 l1 s2 l2 mv = Inr None" if "mv \<le> 0"
    using that by (simp add: decode_interacting_genes_def)
  show "decode_simple_attribute g s l opts = Inr None" if "get_gene g s l = Inl e"
    using that decode_simple_attribute_cases [of g s l opts] by auto
  show "decode_interacting_genes g s1 l1 s2 l2 mv = Inr None"
    if "get_gene g s1 l1 = Inl e \<or> get_gene g s2 l2 = Inl e"
    using that decode_interacting_genes_cases [of g s1 l1 s2 l2 mv] by auto
qed

theorem decoders_never_raise_witness:
  "decode_simple_attribute \<lparr>data = [7, 9]\<rparr> 0 4 [''red'', ''green'', ''blue''] = Inr None
   \<and> decode_interacting_genes \<lparr>data = [7, 9]\<rparr> 0 2 2 2 0 = Inr None
   \<and> decode_interacting_genes \<lparr>data = [7, 9]\<rparr> 0 2 2 2 10 = Inr None
   \<and> decode_simple_attribute \<lparr>data = [7, 9]\<rparr> 0 2 [] = Inr None"
proof -
  let ?g = "\<lparr>data = [7, 9 :: byte]\<rparr>"
  have a: "get_gene ?g 0 4 = Inl IndexError" and b: "get_gene ?g 2 2 = Inl IndexError"
    by (simp_all add: get_gene_def)
  note n1 = decoders_never_raise [of ?g 0 4 "[''red'', ''green'', ''blue'']" 0 2 2 2 0 IndexError]
  note n2 = decoders_never_raise [of ?g 0 2 "[]" 0 2 2 2 10 IndexError]
  from n1 a have "decode_simple_attribute ?g 0 4 [''red'', ''green'', ''blue''] = Inr None"
    by blast
  moreover from n1 have "decode_interacting_genes ?g 0 2 2 2 0 = Inr None"
    by simp
  moreover from n2 b have "decode_interacting_genes ?g 0 2 2 2 10 = Inr None"
    by blast
  moreover from n2 have "decode_simple_attribute ?g 0 2 [] = Inr None"
    by blast
  ultimately show ?thesis by simp
qed

text \<open>
  Claim C4. For every genome, every pair of in-bounds segments and every
  \<open>max_value > 0\<close>, \<open>decode_interacting_genes\<close> returns (sum of the first segment's
  bytes) times (sum of the second segment's bytes) modulo \<open>max_value\<close>, computed on
  unbounded integers; and on every input, a result other than \<open>None\<close> lies in
  \<open>[0, max_value)\<close>. The witness includes a product beyond 16 bits.
\<close>

theorem decode_interacting_genes_exact:
  "(0 \<le> s1 \<and> s1 < int (length (data g)) \<and> 0 < l1 \<and> s1 + l1 \<le> int (length (data g))
    \<and> 0 \<le> s2 \<and> s2 < int (length (data g)) \<and> 0 < l2 \<and> s2 + l2 \<le> int (length (data g))
    \<and> 0 < mv
    \<longrightarrow> decode_interacting_genes g s1 l1 s2 l2 mv =
          Inr (Some (((\<Sum>k = nat s1 ..< nat (s1 + l1). uint (data g ! k))
                      * (\<Sum>k = nat s2 ..< nat (s2 + l2). uint (data g ! k))) mod mv)))
   \<and> (decode_interacting_genes g s1 l1 s2 l2 mv = Inr (Some r) \<longrightarrow> 0 \<le> r \<and> r < mv)"
proof (intro conjI impI)
  assume b: "0 \<le> s1 \<and> s1 < int (length (data g)) \<and> 0 < l1 \<and> s1 + l1 \<le> int (length (data g))
    \<and> 0 \<le> s2 \<and> s2 < int (length (data g)) \<and> 0 < l2 \<and> s2 + l2 \<le> int (length (data g))
    \<and> 0 < mv"
  let ?seg1 = "py_slice (data g) s1 (s1 + l1)" and ?seg2 = "py_slice (data g) s2 (s2 + l2)"
  from b have g1: "get_gene g s1 l1 = Inr ?seg1" and g2: "get_gene g s2 l2 = Inr ?seg2"
    by (simp_all add: get_gene_in_bounds)
  from b have sum1: "py_sum ?seg1 = (\<Sum>k = nat s1 ..< nat (s1 + l1). uint (data g ! k))"
    and sum2: "py_sum ?seg2 = (\<Sum>k = nat s2 ..< nat (s2 + l2). uint (data g ! k))"
    by (simp_all add: py_sum_py_slice)
  from g1 g2 decode_interacting_genes_cases [of g s1 l1 s2 l2 mv] b
  have "decode_interacting_genes g s1 l1 s2 l2 mv = Inr None
        \<or> decode_interacting_genes g s1 l1 s2 l2 mv
             = Inr (Some ((py_sum ?seg1 * py_sum ?seg2) mod mv))"
    by auto
  moreover from b g1 g2 have "decode_interacting_genes g s1 l1 s2 l2 mv \<noteq> Inr None"
    using get_gene_nonempty [OF g1] get_gene_nonempty [OF g2]
    by (simp add: decode_interacting_genes_def Let_def)
  ultimately show "decode_interacting_genes g s1 l1 s2 l2 mv =
          Inr (Some (((\<Sum>k = nat s1 ..< nat (s1 + l1). uint (data g ! k))
                      * (\<Sum>k = nat s2 ..< nat (s2 + l2). uint (data g ! k))) mod mv))"
    by (simp only: sum1 sum2) simp
next
  assume r: "decode_interacting_genes g s1 l1 s2 l2 mv = Inr (Some r)"
  with decode_interacting_genes_cases [of g s1 l1 s2 l2 mv]
  obtain seg1 seg2 where "0 < mv" and "r = (py_sum seg1 * py_sum seg2) mod mv"
    by auto
  then have "0 \<le> r \<and> r < mv" by simp
  then show "0 \<le> r" and "r < mv" by simp_all
qed

theorem decode_interacting_genes_exact_witness:
  "decode_interacting_genes \<lparr>data = [0, 1, 2, 3, 10, 11, 20, 21]\<rparr> 4 2 6 2 100 = Inr (Some 61)
   \<and> decode_interacting_genes \<lparr>data = [255, 255, 255, 255]\<rparr> 0 2 2 2 1000000
         = Inr (Some 260100)
   \<and> (2 :: int) ^ 16 < 260100"
proof -
  let ?g = "\<lparr>data = [0, 1, 2, 3, 10, 11, 20, 21 :: byte]\<rparr>"
  let ?h = "\<lparr>data = [255, 255, 255, 255 :: byte]\<rparr>"
  have g1: "(\<Sum>k = nat 4 ..< nat (4 + 2). uint (data ?g ! k)) = 21"
    by code_simp
  have g2: "(\<Sum>k = nat 6 ..< nat (6 + 2). uint (data ?g ! k)) = 41"
    by code_simp
  have h1: "(\<Sum>k = nat 0 ..< nat (0 + 2). uint (data ?h ! k)) = 510"
    by code_simp
  have h2: "(\<Sum>k = nat 2 ..< nat (2 + 2). uint (data ?h ! k)) = 510"
    by code_simp
  have "decode_interacting_genes ?g 4 2 6 2 100 =
          Inr (Some (((\<Sum>k = nat 4 ..< nat (4 + 2). uint (data ?g ! k))
                      * (\<Sum>k = nat 6 ..< nat (6 + 2). uint (data ?g ! k))) mod 100))"
    by (rule decode_interacting_genes_exact [THEN conjunct1, THEN mp]) simp
  then have a: "decode_interacting_genes ?g 4 2 6 2 100 = Inr (Some 61)"
    by (simp only: g1 g2) simp
  have "decode_interacting_genes ?h 0 2 2 2 1000000 =
          Inr (Some (((\<Sum>k = nat 0 ..< nat (0 + 2). uint (data ?h ! k))
                      * (\<Sum>k = nat 2 ..< nat (2 + 2). uint (data ?h ! k))) mod 1000000))"
    by (rule decode_interacting_genes_exact [THEN conjunct1, THEN mp]) simp
  then have b: "decode_interacting_genes ?h 0 2 2 2 1000000 = Inr (Some 260100)"
    by (simp only: h1 h2) simp
  from a b show ?thesis by simp
qed

text \<open>
  Claim C5. For every genome, every pair of in-bounds segments and every
  \<open>max_value > 0\<close>: if the bytes of either segment sum to zero, the result of
  \<open>decode_interacting_genes\<close> is 0, whatever the other segment holds.
\<close>

theorem zero_sum_annihilates:
  assumes "0 \<le> s1" and "s1 < int (length (data g))" and "0 < l1"
    and "s1 + l1 \<le> int (length (data g))"
    and "0 \<le> s2" and "s2 < int (length (data g))" and "0 < l2"
    and "s2 + l2 \<le> int (length (data g))"
    and "0 < mv"
    and "(\<Sum>k = nat s1 ..< nat (s1 + l1). uint (data g ! k)) = 0
         \<or> (\<Sum>k = nat s2 ..< nat (s2 + l2). uint (data g ! k)) = 0"
  shows "decode_interacting_genes g s1 l1 s2 l2 mv = Inr (Some 0)"
proof -
  let ?seg1 = "py_slice (data g) s1 (s1 + l1)" and ?seg2 = "py_slice (data g) s2 (s2 + l2)"
  from assms have g1: "get_gene g s1 l1 = Inr ?seg1" and g2: "get_gene g s2 l2 = Inr ?seg2"
    by (simp_all add: get_gene_in_bounds)
  from assms have "py_sum ?seg1 = (\<Sum>k = nat s1 ..< nat (s1 + l1). uint (data g ! k))"
    and "py_sum ?seg2 = (\<Sum>k = nat s2 ..< nat (s2 + l2). uint (data g ! k))"
    by (simp_all add: py_sum_py_slice)
  with assms(10) have zero: "py_sum ?seg1 * py_sum ?seg2 = 0"
    by auto
  from assms(9) g1 g2 get_gene_nonempty [OF g1] get_gene_nonempty [OF g2]
  have "decode_interacting_genes g s1 l1 s2 l2 mv
          = Inr (Some ((py_sum ?seg1 * py_sum ?seg2) mod mv))"
    by (simp add: decode_interacting_genes_def Let_def)
  then show ?thesis by (simp only: zero mod_0)
qed

theorem zero_sum_annihilates_witness:
  "decode_interacting_genes \<lparr>data = [0, 0, 200, 55]\<rparr> 0 2 2 2 50 = Inr (Some 0)
   \<and> decode_interacting_genes \<lparr>data = [0, 0, 200, 55]\<rparr> 2 2 0 2 50 = Inr (Some 0)"
proof -
  let ?g = "\<lparr>data = [0, 0, 200, 55 :: byte]\<rparr>"
  have z: "(\<Sum>k = nat 0 ..< nat (0 + 2). uint (data ?g ! k)) = 0"
    by code_simp
  have "decode_interacting_genes ?g 0 2 2 2 50 = Inr (Some 0)"
  proof (rule zero_sum_annihilates)
    show "(\<Sum>k = nat 0 ..< nat (0 + 2). uint (data ?g ! k)) = 0
          \<or> (\<Sum>k = nat 2 ..< nat (2 + 2). uint (data ?g ! k)) = 0"
      using z by (rule disjI1)
  qed simp_all
  moreover have "decode_interacting_genes ?g 2 2 0 2 50 = Inr (Some 0)"
  proof (rule zero_sum_annihilates)
    show "(\<Sum>k = nat 2 ..< nat (2 + 2). uint (data ?g ! k)) = 0
          \<or> (\<Sum>k = nat 0 ..< nat (0 + 2). uint (data ?g ! k)) = 0"
      using z by (rule disjI2)
  qed simp_all
  ultimately show ?thesis by simp
qed

section \<open>Genome: single-byte writes\<close>

lemma uint_byte_of_int:
  assumes "0 \<le> v" and "v \<le> 255"
  shows "uint (word_of_int v :: byte) = v"
proof -
  from assms have "v < 2 ^ LENGTH(8)" by simp
  with assms(1) show ?thesis
    by (simp add: uint_word_of_int take_bit_int_eq_self)
qed

text \<open>
  Claim C6. For every genome, \<open>mutate_byte(index, value)\<close> with an explicit \<open>value\<close>
  in \<open>[0, 255]\<close> and \<open>index\<close> in \<open>[0, length)\<close> returns normally with
  \<open>data[index] = value\<close>, every other byte and the length unchanged. When \<open>index\<close> is
  outside \<open>[0, length)\<close> the call raises \<open>IndexError\<close>, and when \<open>index\<close> is in range
  and \<open>value\<close> is outside \<open>[0, 255]\<close> it raises \<open>ValueError\<close>; in both cases the genome
  after the call is the genome before it.
\<close>

theorem mutate_byte_explicit_value:
  "(0 \<le> index \<and> index < int (length (data g)) \<and> 0 \<le> v \<and> v \<le> 255
    \<longrightarrow> (\<exists>g'. mutate_byte rnd g index (Some v) = (Inr (), g')
              \<and> uint (data g' ! nat index) = v
              \<and> length (data g') = length (data g)
              \<and> (\<forall>k < length (data g). k \<noteq> nat index \<longrightarrow> data g' ! k = data g ! k)))
   \<and> (\<not> (0 \<le> index \<and> index < int (length (data g)))
    \<longrightarrow> mutate_byte rnd g index (Some v) = (Inl IndexError, g))
   \<and> (0 \<le> index \<and> index < int (length (data g)) \<and> \<not> (0 \<le> v \<and> v \<le> 255)
    \<longrightarrow> mutate_byte rnd g index (Some v) = (Inl ValueError, g))"
proof (intro conjI impI)
  assume ok: "0 \<le> index \<and> index < int (length (data g)) \<and> 0 \<le> v \<and> v \<le> 255"
  let ?g' = "g\<lparr>data := (data g)[nat index := word_of_int v]\<rparr>"
  from ok have call: "mutate_byte rnd g index (Some v) = (Inr (), ?g')"
    by (simp add: mutate_byte_def)
  from ok have idx: "nat index < length (data g)" by linarith
  from ok have "uint (word_of_int v :: byte) = v"
    by (simp add: uint_byte_of_int)
  with idx have "uint (data ?g' ! nat index) = v" by simp
  moreover have "length (data ?g') = length (data g)" by simp
  moreover have "\<forall>k < length (data g). k \<noteq> nat index \<longrightarrow> data ?g' ! k = data g ! k"
    by simp
  ultimately show "\<exists>g'. mutate_byte rnd g index (Some v) = (Inr (), g')
              \<and> uint (data g' ! nat index) = v
              \<and> length (data g') = length (data g)
              \<and> (\<forall>k < length (data g). k \<noteq> nat index \<longrightarrow> data g' ! k = data g ! k)"
    using call by blast
next
  assume "\<not> (0 \<le> index \<and> index < int (length (data g)))"
  then show "mutate_byte rnd g index (Some v) = (Inl IndexError, g)"
    by (simp add: mutate_byte_def)
next
  assume "0 \<le> index \<and> index < int (length (data g)) \<and> \<not> (0 \<le> v \<and> v \<le> 255)"
  then show "mutate_byte rnd g index (Some v) = (Inl ValueError, g)"
    by (simp add: mutate_byte_def)
qed

theorem mutate_byte_explicit_value_witness:
  "mutate_byte 0 \<lparr>data = [1, 2, 3, 4]\<rparr> 3 (Some 255) = (Inr (), \<lparr>data = [1, 2, 3, 255]\<rparr>)
   \<and> mutate_byte 0 \<lparr>data = [1, 2, 3, 4]\<rparr> 4 (Some 255) = (Inl IndexError, \<lparr>data = [1, 2, 3, 4]\<rparr>)
   \<and> mutate_byte 0 \<lparr>data = [1, 2, 3, 4]\<rparr> 1 (Some 256) = (Inl ValueError, \<lparr>data = [1, 2, 3, 4]\<rparr>)"
proof -
  let ?g = "\<lparr>data = [1, 2, 3, 4 :: byte]\<rparr>"
  from mutate_byte_explicit_value [of 3 ?g 255 0]
  obtain g' where call: "mutate_byte 0 ?g 3 (Some 255) = (Inr (), g')"
    and v: "uint (data g' ! nat 3) = 255"
    and len: "length (data g') = length (data ?g)"
    and rest: "\<forall>k < length (data ?g). k \<noteq> nat 3 \<longrightarrow> data g' ! k = data ?g ! k"
    by auto
  from v have "uint (data g' ! 3) = uint (255 :: byte)" by simp
  then have d3: "data g' ! 3 = 255" by (simp only: word_uint_eq_iff)
  from rest have "data g' ! 0 = 1" "data g' ! 1 = 2" "data g' ! 2 = 3"
    by simp_all
  with d3 len have "data g' = [1, 2, 3, 255]"
    by (simp add: list_eq_iff_nth_eq less_Suc_eq numeral_nat)
  then have "g' = \<lparr>data = [1, 2, 3, 255]\<rparr>" by (cases g') simp
  with call have "mutate_byte 0 ?g 3 (Some 255) = (Inr (), \<lparr>data = [1, 2, 3, 255]\<rparr>)"
    by simp
  moreover from mutate_byte_explicit_value [of 4 ?g 255 0]
  have "mutate_byte 0 ?g 4 (Some 255) = (Inl IndexError, ?g)" by simp
  moreover from mutate_byte_explicit_value [of 1 ?g 256 0]
  have "mutate_byte 0 ?g 1 (Some 256) = (Inl ValueError, ?g)" by simp
  ultimately show ?thesis by simp
qed

text \<open>
  Claim C10. When \<open>index\<close> is outside \<open>[0, length)\<close> and the explicit \<open>value\<close> is
  outside \<open>[0, 255]\<close> at once, \<open>mutate_byte\<close> raises \<open>IndexError\<close>, not \<open>ValueError\<close>
  (the index is checked first), and the genome is unchanged.
\<close>

theorem mutate_byte_index_checked_first:
  assumes "\<not> (0 \<le> index \<and> index < int (length (data g)))" and "\<not> (0 \<le> v \<and> v \<le> 255)"
  shows "mutate_byte rnd g index (Some v) = (Inl IndexError, g)"
  using assms(1) by (simp add: mutate_byte_def)

theorem mutate_byte_index_checked_first_witness:
  "mutate_byte 0 \<lparr>data = [1, 2, 3]\<rparr> 5 (Some 300) = (Inl IndexError, \<lparr>data = [1, 2, 3]\<rparr>)
   \<and> mutate_byte 0 \<lparr>data = [1, 2, 3]\<rparr> (- 1) (Some (- 7)) = (Inl IndexError, \<lparr>data = [1, 2, 3]\<rparr>)"
proof -
  have "mutate_byte 0 \<lparr>data = [1, 2, 3]\<rparr> 5 (Some 300) = (Inl IndexError, \<lparr>data = [1, 2, 3]\<rparr>)"
    by (rule mutate_byte_index_checked_first) simp_all
  moreover
  have "mutate_byte 0 \<lparr>data = [1, 2, 3]\<rparr> (- 1) (Some (- 7)) = (Inl IndexError, \<lparr>data = [1, 2, 3]\<rparr>)"
    by (rule mutate_byte_index_checked_first) simp_all
  ultimately show ?thesis by simp
qed

section \<open>Organism\<close>

lemma MIN_GENOME_SIZE_eq: "MIN_GENOME_SIZE = 8"
  by (simp add: MIN_GENOME_SIZE_def SIZE_GENE2_START_def SIZE_GENE2_LENGTH_def
      SIZE_GENE1_START_def SIZE_GENE1_LENGTH_def COLOR_GENE_START_def COLOR_GENE_LENGTH_def)

lemma decode_simple_attribute_returns: "\<exists>r. decode_simple_attribute g s l opts = Inr r"
  using decode_simple_attribute_cases [of g s l opts] by blast

lemma decode_interacting_genes_returns:
  "\<exists>r. decode_interacting_genes g s1 l1 s2 l2 mv = Inr r"
  using decode_interacting_genes_cases [of g s1 l1 s2 l2 mv] by blast

lemma decode_attributes_returns:
  "\<exists>org. decode_attributes self = Inr org \<and> genome org = genome self"
proof -
  obtain color where c: "decode_simple_attribute (genome self) COLOR_GENE_START
      COLOR_GENE_LENGTH COLOR_OPTIONS = Inr color"
    using decode_simple_attribute_returns by blast
  obtain sz where s: "decode_interacting_genes (genome self) SIZE_GENE1_START
      SIZE_GENE1_LENGTH SIZE_GENE2_START SIZE_GENE2_LENGTH SIZE_MAX_VALUE = Inr sz"
    using decode_interacting_genes_returns by blast
  from c s show ?thesis
    by (simp add: decode_attributes_def Let_def)
qed





text \<open>
  Claim C7. For every supplied genome shorter than 8 bytes the constructor raises
  \<open>ValueError\<close> and yields no organism; for every supplied genome of at least 8 bytes it
  yields an organism whose genome is the supplied one, unchanged.
\<close>

theorem Organism_init_supplied_genome:
  "(Genome_len gi < 8 \<longrightarrow> Organism_init env n (Some gi) = Inl ValueError)
   \<and> (8 \<le> Genome_len gi
        \<longrightarrow> (\<exists>org. Organism_init env n (Some gi) = Inr org \<and> genome org = gi))"
proof (intro conjI impI)
  assume "Genome_len gi < 8"
  then show "Organism_init env n (Some gi) = Inl ValueError"
    by (simp add: Organism_init_def MIN_GENOME_SIZE_eq)
next
  assume "8 \<le> Genome_len gi"
  then have "Organism_init env n (Some gi)
               = decode_attributes \<lparr>genome = gi, attributes = Map.empty\<rparr>"
    by (simp add: Organism_init_def MIN_GENOME_SIZE_eq)
  with decode_attributes_returns [of "\<lparr>genome = gi, attributes = Map.empty\<rparr>"]
  show "\<exists>org. Organism_init env n (Some gi) = Inr org \<and> genome org = gi"
    by simp
qed

theorem Organism_init_supplied_genome_witness:
  "Organism_init \<lparr>rand_byte = zero_bytes, alloc_limit = 1000000\<rparr> 1024 (Some \<lparr>data = [1, 2, 3]\<rparr>) = Inl ValueError
   \<and> (\<exists>org. Organism_init \<lparr>rand_byte = zero_bytes, alloc_limit = 1000000\<rparr> 1024 (Some \<lparr>data = [0, 1, 2, 3, 10, 11, 20, 21]\<rparr>) = Inr org
            \<and> genome org = \<lparr>data = [0, 1, 2, 3, 10, 11, 20, 21]\<rparr>)"
proof -
  have "Organism_init \<lparr>rand_byte = zero_bytes, alloc_limit = 1000000\<rparr> 1024 (Some \<lparr>data = [1, 2, 3]\<rparr>) = Inl ValueError"
    by (rule Organism_init_supplied_genome [THEN conjunct1, THEN mp])
       (simp add: Genome_len_def)
  moreover
  have "\<exists>org. Organism_init \<lparr>rand_byte = zero_bytes, alloc_limit = 1000000\<rparr> 1024 (Some \<lparr>data = [0, 1, 2, 3, 10, 11, 20, 21]\<rparr>) = Inr org
            \<and> genome org = \<lparr>data = [0, 1, 2, 3, 10, 11, 20, 21]\<rparr>"
    by (rule Organism_init_supplied_genome [THEN conjunct2, THEN mp])
       (simp add: Genome_len_def)
  ultimately show ?thesis by simp
qed




lemma scenario_color:
  "decode_simple_attribute \<lparr>data = [0, 1, 2, 3, 10, 11, 20, 21]\<rparr> COLOR_GENE_START
     COLOR_GENE_LENGTH COLOR_OPTIONS = Inr (Some ''pink'')"
  by code_simp

lemma scenario_size:
  "decode_interacting_genes \<lparr>data = [0, 1, 2, 3, 10, 11, 20, 21]\<rparr> SIZE_GENE1_START
     SIZE_GENE1_LENGTH SIZE_GENE2_START SIZE_GENE2_LENGTH SIZE_MAX_VALUE = Inr (Some 61)"
  by code_simp

text \<open>
  Claim C9. The organism constructed on the supplied genome
  \<open>[0, 1, 2, 3, 10, 11, 20, 21]\<close> has exactly the attributes \<open>color = pink\<close> and
  \<open>size = 61\<close>: the color segment \<open>[0, 1, 2, 3]\<close> sums to 6, the option list has 10
  entries and its entry 6 (the seventh) is \<open>pink\<close>; the size segments \<open>[10, 11]\<close> and
  \<open>[20, 21]\<close> sum to 21 and 41, and \<open>21 * 41 mod 100 = 61\<close>.
\<close>

theorem scenario_pink_61:
  "Organism_init env n (Some \<lparr>data = [0, 1, 2, 3, 10, 11, 20, 21]\<rparr>)
     = Inr \<lparr>genome = \<lparr>data = [0, 1, 2, 3, 10, 11, 20, 21]\<rparr>,
            attributes = [''color'' \<mapsto> PyStr ''pink'', ''size'' \<mapsto> PyInt 61]\<rparr>
   \<and> get_gene \<lparr>data = [0, 1, 2, 3, 10, 11, 20, 21]\<rparr> 0 4 = Inr [0, 1, 2, 3]
   \<and> py_sum [0, 1, 2, 3] = 6 \<and> length COLOR_OPTIONS = 10 \<and> COLOR_OPTIONS ! 6 = ''pink''
   \<and> get_gene \<lparr>data = [0, 1, 2, 3, 10, 11, 20, 21]\<rparr> 4 2 = Inr [10, 11]
   \<and> get_gene \<lparr>data = [0, 1, 2, 3, 10, 11, 20, 21]\<rparr> 6 2 = Inr [20, 21]
   \<and> py_sum [10, 11] = 21 \<and> py_sum [20, 21] = 41"
proof -
  let ?g = "\<lparr>data = [0, 1, 2, 3, 10, 11, 20, 21 :: byte]\<rparr>"
  have "\<not> Genome_len ?g < MIN_GENOME_SIZE"
    by (simp add: Genome_len_def MIN_GENOME_SIZE_eq)
  then have "Organism_init env n (Some ?g)
               = decode_attributes \<lparr>genome = ?g, attributes = Map.empty\<rparr>"
    by (simp add: Organism_init_def)
  also have "\<dots> = Inr \<lparr>genome = ?g,
                         attributes = [''color'' \<mapsto> PyStr ''pink'', ''size'' \<mapsto> PyInt 61]\<rparr>"
    by (simp add: decode_attributes_def scenario_color scenario_size Let_def)
  finally have a: "Organism_init env n (Some ?g)
     = Inr \<lparr>genome = ?g, attributes = [''color'' \<mapsto> PyStr ''pink'', ''size'' \<mapsto> PyInt 61]\<rparr>" .
  have b: "get_gene ?g 0 4 = Inr [0, 1, 2, 3]" by code_simp
  have c: "py_sum [0, 1, 2, 3] = 6" by code_simp
  have d: "length COLOR_OPTIONS = 10" by (simp add: COLOR_OPTIONS_def)
  have e: "COLOR_OPTIONS ! 6 = ''pink''" by (simp add: COLOR_OPTIONS_def)
  have f: "get_gene ?g 4 2 = Inr [10, 11]" by code_simp
  have g: "get_gene ?g 6 2 = Inr [20, 21]" by code_simp
  have h: "py_sum [10, 11] = 21" by code_simp
  have i: "py_sum [20, 21] = 41" by code_simp
  from a b c d e f g h i show ?thesis by simp
qed

theorem scenario_pink_61_witness:
  "\<exists>org. Organism_init \<lparr>rand_byte = zero_bytes, alloc_limit = 1000000\<rparr> 1024 (Some \<lparr>data = [0, 1, 2, 3, 10, 11, 20, 21]\<rparr>) = Inr org
     \<and> attributes org ''color'' = Some (PyStr ''pink'')
     \<and> attributes org ''size'' = Some (PyInt 61)
     \<and> dom (attributes org) = {''color'', ''size''}"
proof -
  from scenario_pink_61 [of "\<lparr>rand_byte = zero_bytes, alloc_limit = 1000000\<rparr>" 1024]
  have "Organism_init \<lparr>rand_byte = zero_bytes, alloc_limit = 1000000\<rparr> 1024 (Some \<lparr>data = [0, 1, 2, 3, 10, 11, 20, 21]\<rparr>)
     = Inr \<lparr>genome = \<lparr>data = [0, 1, 2, 3, 10, 11, 20, 21]\<rparr>,
            attributes = [''color'' \<mapsto> PyStr ''pink'', ''size'' \<mapsto> PyInt 61]\<rparr>"
    by (rule conjunct1)
  then show ?thesis by auto
qed

end
